theory Spec2Isabelle
  imports Main
begin

section \<open>Python values and exceptions\<close>

text \<open>
  The module under verification is \<^verbatim>\<open>lazyllm/module/onlineChatModule/openaiModule.py\<close>,
  class \<^verbatim>\<open>OpenAIModule\<close>. Its methods work on the values that \<^verbatim>\<open>json.loads\<close> and
  \<^verbatim>\<open>Response.json()\<close> produce, so the embedding starts with those values.

  A Python \<^verbatim>\<open>str\<close> is a \<^typ>\<open>string\<close> holding its UTF-8 encoding, a \<^verbatim>\<open>bytes\<close> object is a
  \<^typ>\<open>string\<close> holding its bytes. A \<^verbatim>\<open>dict\<close> is an association list in insertion order
  (the order \<^verbatim>\<open>json.dumps\<close> writes); a Python dict has each key once, and look-up goes
  through \<^const>\<open>map_of\<close>. A \<^verbatim>\<open>float\<close> is kept as the text \<^verbatim>\<open>json.dumps\<close> prints for it:
  the code never computes with a number. Python's \<^verbatim>\<open>None\<close> is \<open>JNull\<close>.
\<close>

datatype json =
    JNull
  | JBool bool
  | JInt int
  | JFloat string
  | JStr string
  | JArr "json list"
  | JObj "(string \<times> json) list"

text \<open>
  The exceptions the modelled code can leave a method with. \<open>JSONDecodeError msg doc pos\<close> is
  \<^verbatim>\<open>json.JSONDecodeError\<close> with its three constructor arguments: the message, the document
  that was being parsed and the position in it. \<open>AttributeError a\<close> is the look-up of the
  attribute \<open>a\<close> on an object that has none of that name, \<open>KeyError k\<close> the subscript of a dict
  with a key it does not hold, \<open>RequestException m\<close> the \<^verbatim>\<open>requests.RequestException(m)\<close> that
  the three remote methods raise themselves. \<open>RequestsJSONDecodeError m\<close> is the
  \<^verbatim>\<open>requests.exceptions.JSONDecodeError\<close> that \<^verbatim>\<open>Response.json()\<close> raises on a body that is not
  JSON, with \<open>m\<close> the message it prints (\<^verbatim>\<open>str(e)\<close>); its class is a subclass of
  \<^verbatim>\<open>requests.RequestException\<close>.
\<close>

datatype exn =
    JSONDecodeError string string nat
  | AttributeError string
  | TypeError
  | KeyError string
  | UnicodeDecodeError
  | RequestException string
  | RequestsJSONDecodeError string

type_synonym 'a result = "exn + 'a"

text \<open>
  \<^verbatim>\<open>isinstance(e, requests.RequestException)\<close>: the class itself and its subclass. The other
  exceptions are built-in ones or \<^verbatim>\<open>json\<close>'s.
\<close>

fun is_RequestException :: "exn \<Rightarrow> bool" where
  "is_RequestException (RequestException m) = True"
| "is_RequestException (RequestsJSONDecodeError m) = True"
| "is_RequestException (JSONDecodeError msg doc pos) = False"
| "is_RequestException (AttributeError a) = False"
| "is_RequestException TypeError = False"
| "is_RequestException (KeyError k) = False"
| "is_RequestException UnicodeDecodeError = False"

definition raises_RequestException :: "'a result \<Rightarrow> bool" where
  "raises_RequestException outcome =
     (case outcome of Inl e \<Rightarrow> is_RequestException e | Inr v \<Rightarrow> False)"

text \<open>\<^verbatim>\<open>x.get(k, dflt)\<close>: only a dict has the method.\<close>

fun get :: "json \<Rightarrow> string \<Rightarrow> json \<Rightarrow> json result" where
  "get (JObj d) k dflt = Inr (case map_of d k of None \<Rightarrow> dflt | Some v \<Rightarrow> v)"
| "get JNull k dflt = Inl (AttributeError ''get'')"
| "get (JBool b) k dflt = Inl (AttributeError ''get'')"
| "get (JInt i) k dflt = Inl (AttributeError ''get'')"
| "get (JFloat f) k dflt = Inl (AttributeError ''get'')"
| "get (JStr s) k dflt = Inl (AttributeError ''get'')"
| "get (JArr xs) k dflt = Inl (AttributeError ''get'')"

text \<open>
  \<^verbatim>\<open>x[k]\<close> for a string \<open>k\<close>: a dict answers with the value or \<^verbatim>\<open>KeyError\<close>; a list or a
  string wants an integer index, the other values have no subscript (\<^verbatim>\<open>TypeError\<close>).
\<close>

fun getitem :: "json \<Rightarrow> string \<Rightarrow> json result" where
  "getitem (JObj d) k = (case map_of d k of None \<Rightarrow> Inl (KeyError k) | Some v \<Rightarrow> Inr v)"
| "getitem JNull k = Inl TypeError"
| "getitem (JBool b) k = Inl TypeError"
| "getitem (JInt i) k = Inl TypeError"
| "getitem (JFloat f) k = Inl TypeError"
| "getitem (JStr s) k = Inl TypeError"
| "getitem (JArr xs) k = Inl TypeError"

text \<open>
  \<^verbatim>\<open>for message in x\<close>: a list yields its elements, a dict its keys, a string its characters
  as one-character strings (here: one string per byte, which changes nothing below, where
  each of them is a string anyway); the other values are not iterable.
\<close>

fun iter :: "json \<Rightarrow> json list result" where
  "iter (JArr xs) = Inr xs"
| "iter (JObj d) = Inr (map (\<lambda>kv. JStr (fst kv)) d)"
| "iter (JStr s) = Inr (map (\<lambda>c. JStr [c]) s)"
| "iter JNull = Inl TypeError"
| "iter (JBool b) = Inl TypeError"
| "iter (JInt i) = Inl TypeError"
| "iter (JFloat f) = Inl TypeError"

section \<open>Serialisation: \<^verbatim>\<open>json.dumps(x, ensure_ascii=False)\<close> and \<^verbatim>\<open>str.join\<close>\<close>

fun join :: "string \<Rightarrow> string list \<Rightarrow> string" where
  "join sep [] = []"
| "join sep [x] = x"
| "join sep (x # y # ys) = x @ sep @ join sep (y # ys)"

definition hex_digit :: "nat \<Rightarrow> char" where
  "hex_digit n = ''0123456789abcdef'' ! (n mod 16)"

text \<open>
  The escapes of \<^verbatim>\<open>json.encoder.encode_basestring\<close>: the quote, the backslash, the five
  named control characters, and \<^verbatim>\<open>\u00XX\<close> for every other character below 0x20. All
  other characters, the non-ASCII ones too, are written as they are.
\<close>

definition escape_char :: "char \<Rightarrow> string" where
  "escape_char c =
    (if c = CHR 0x22 then [CHR 0x5C, CHR 0x22]
     else if c = CHR 0x5C then [CHR 0x5C, CHR 0x5C]
     else if c = CHR 0x0A then [CHR 0x5C, CHR ''n'']
     else if c = CHR 0x0D then [CHR 0x5C, CHR ''r'']
     else if c = CHR 0x09 then [CHR 0x5C, CHR ''t'']
     else if c = CHR 0x08 then [CHR 0x5C, CHR ''b'']
     else if c = CHR 0x0C then [CHR 0x5C, CHR ''f'']
     else if (of_char c :: nat) < 32
       then [CHR 0x5C, CHR ''u'', CHR ''0'', CHR ''0'',
             hex_digit (of_char c div 16), hex_digit (of_char c mod 16)]
     else [c])"

definition encode_basestring :: "string \<Rightarrow> string" where
  "encode_basestring s = CHR 0x22 # concat (map escape_char s) @ [CHR 0x22]"

fun digits :: "nat \<Rightarrow> string" where
  "digits n = (if n < 10 then [hex_digit n] else digits (n div 10) @ [hex_digit (n mod 10)])"

definition int_repr :: "int \<Rightarrow> string" where
  "int_repr i = (if i < 0 then CHR ''-'' # digits (nat (- i)) else digits (nat i))"

fun json_dumps :: "json \<Rightarrow> string" where
  "json_dumps JNull = ''null''"
| "json_dumps (JBool b) = (if b then ''true'' else ''false'')"
| "json_dumps (JInt i) = int_repr i"
| "json_dumps (JFloat f) = f"
| "json_dumps (JStr s) = encode_basestring s"
| "json_dumps (JArr xs) = ''['' @ join '', '' (map json_dumps xs) @ '']''"
| "json_dumps (JObj d) =
     ''{'' @ join '', '' (map (\<lambda>kv. encode_basestring (fst kv) @ '': '' @ json_dumps (snd kv)) d)
       @ ''}''"

declare digits.simps [simp del]

section \<open>The dataset converter: \<^verbatim>\<open>_convert_file_format\<close>\<close>

text \<open>
  The method opens the file at \<^verbatim>\<open>filepath\<close> and gives every line to \<^verbatim>\<open>json.loads\<close>. The
  file is taken to exist and to be UTF-8 text. The parser belongs to Python's library, so
  the model takes the file as the parser sees it: one entry per line, in file order. \<open>Parsed v\<close> is a line on which \<^verbatim>\<open>json.loads\<close> returns \<open>v\<close>;
  \<open>Malformed msg doc pos\<close> is a line on which it raises \<^verbatim>\<open>JSONDecodeError(msg, doc, pos)\<close>,
  where \<open>doc\<close> is the text of that line and \<open>pos\<close> the position in it.
\<close>

datatype line = Parsed json | Malformed string string nat

type_synonym jsonl_file = "line list"

text \<open>
  \<^verbatim>\<open>dataset = [json.loads(line) for line in fr]\<close>: the comprehension stops at the first line
  that raises, and then no list is built.
\<close>

fun load_dataset :: "jsonl_file \<Rightarrow> json list result" where
  "load_dataset [] = Inr []"
| "load_dataset (Malformed msg doc pos # rest) = Inl (JSONDecodeError msg doc pos)"
| "load_dataset (Parsed ex # rest) =
     (case load_dataset rest of Inl e \<Rightarrow> Inl e | Inr exs \<Rightarrow> Inr (ex # exs))"

definition roles :: "json list" where
  "roles = [JStr ''system'', JStr ''user'', JStr ''assistant'']"

text \<open>
  The inner loop, lines 41 to 45. The second argument is \<^verbatim>\<open>lineEx["messages"]\<close>, the list
  the loop appends to.
\<close>

fun convert_messages :: "json list \<Rightarrow> json list \<Rightarrow> json list result" where
  "convert_messages [] acc = Inr acc"
| "convert_messages (message # rest) acc =
     (case get message ''role'' (JStr []) of
        Inl e \<Rightarrow> Inl e
      | Inr role \<Rightarrow>
          (case get message ''content'' (JStr []) of
             Inl e \<Rightarrow> Inl e
           | Inr content \<Rightarrow>
               convert_messages rest
                 (if role \<in> set roles
                  then acc @ [JObj [(''role'', role), (''content'', content)]]
                  else acc)))"

text \<open>The body of the outer loop, lines 39 to 45: the \<^verbatim>\<open>lineEx\<close> built for one example.\<close>

definition convert_example :: "json \<Rightarrow> json result" where
  "convert_example ex =
     (case get ex ''messages'' (JArr []) of
        Inl e \<Rightarrow> Inl e
      | Inr messages \<Rightarrow>
          (case iter messages of
             Inl e \<Rightarrow> Inl e
           | Inr ms \<Rightarrow>
               (case convert_messages ms [] of
                  Inl e \<Rightarrow> Inl e
                | Inr out \<Rightarrow> Inr (JObj [(''messages'', JArr out)]))))"

text \<open>
  The outer loop, lines 38 to 46, as the list of the \<^verbatim>\<open>lineEx\<close> values in the order they are
  built. The source serialises each \<^verbatim>\<open>lineEx\<close> inside the loop; \<^verbatim>\<open>json.dumps\<close> neither fails
  on these values nor has an effect, so \<open>convert_file_format\<close> serialises them afterwards.
\<close>

fun convert_examples :: "json list \<Rightarrow> json list result" where
  "convert_examples [] = Inr []"
| "convert_examples (ex # rest) =
     (case convert_example ex of
        Inl e \<Rightarrow> Inl e
      | Inr lineEx \<Rightarrow>
          (case convert_examples rest of Inl e \<Rightarrow> Inl e | Inr out \<Rightarrow> Inr (lineEx # out)))"

definition newline :: string where
  "newline = [CHR 0x0A]"

definition convert_file_format :: "jsonl_file \<Rightarrow> string result" where
  "convert_file_format fr =
     (case load_dataset fr of
        Inl e \<Rightarrow> Inl e
      | Inr dataset \<Rightarrow>
          (case convert_examples dataset of
             Inl e \<Rightarrow> Inl e
           | Inr exs \<Rightarrow> Inr (join newline (map json_dumps exs))))"

text \<open>
  Reading back a text that has been written to a file. \<^verbatim>\<open>for line in fr\<close> on a file opened
  in text mode yields the lines one by one, each with its line ending, which universal
  newlines turn into \<^verbatim>\<open>\n\<close> whether the file has \<^verbatim>\<open>\n\<close>, \<^verbatim>\<open>\r\<close> or \<^verbatim>\<open>\r\n\<close>; a last
  line without an ending is yielded as it is. \<open>text_lines cur rest\<close> is the list of lines of
  \<open>rest\<close> when \<open>cur\<close> is the part of the current line read so far.
\<close>

function text_lines :: "string \<Rightarrow> string \<Rightarrow> string list" where
  "text_lines cur [] = (if cur = [] then [] else [cur])"
| "text_lines cur (c # cs) =
     (if c = CHR 0x0A then (cur @ [CHR 0x0A]) # text_lines [] cs
      else if c = CHR 0x0D then
        (cur @ [CHR 0x0A]) #
          text_lines [] (case cs of [] \<Rightarrow> [] | c' # cs' \<Rightarrow> if c' = CHR 0x0A then cs' else cs)
      else text_lines (cur @ [c]) cs)"
  by pat_completeness auto
termination
  by (relation "measure (\<lambda>(cur, rest). length rest)") (auto split: list.splits)

text \<open>
  The file holding \<open>content\<close> as \<^verbatim>\<open>json.loads\<close> sees it. The parser is the library's; the
  function \<open>loads\<close> stands for it and says, for the text of a line, whether it parses and to
  what.
\<close>

definition read_file :: "(string \<Rightarrow> line) \<Rightarrow> string \<Rightarrow> jsonl_file" where
  "read_file loads content = map loads (text_lines [] content)"

section \<open>The module object and the HTTP response\<close>

text \<open>
  \<open>self\<close>: the attributes the methods below read or write. \<open>dataHandler\<close> is
  \<^verbatim>\<open>self._dataHandler\<close>, the file object with the converted training data; \<open>None\<close> before
  any has been made. A file object is what was written to it and whether \<^verbatim>\<open>close()\<close> has
  been called on it.
\<close>

record temp_file =
  written :: string
  closed :: bool

record OpenAIModule =
  api_key :: string
  base_url :: string
  model_name :: string
  dataHandler :: "temp_file option"

text \<open>
  What the methods read from the \<^verbatim>\<open>requests.Response\<close> they are given: \<open>status_code\<close>; the
  chunks that \<^verbatim>\<open>r.iter_content(None)\<close> yields, each a \<^verbatim>\<open>bytes\<close> object; and what
  \<^verbatim>\<open>r.json()\<close> does: \<open>Inr v\<close> when it returns \<open>v\<close>, \<open>Inl m\<close> when the body is not JSON and the
  call raises \<^verbatim>\<open>requests.exceptions.JSONDecodeError\<close> with the message \<open>m\<close>. The methods are
  modelled from the point where \<^verbatim>\<open>requests.post\<close> or \<^verbatim>\<open>requests.get\<close> has returned the
  response; the URL, the headers and the payload they send do not enter what follows.
\<close>

record response =
  status_code :: int
  iter_content :: "string list"
  body_json :: "string + json"

definition response_json :: "response \<Rightarrow> json result" where
  "response_json r =
     (case body_json r of Inl m \<Rightarrow> Inl (RequestsJSONDecodeError m) | Inr v \<Rightarrow> Inr v)"

text \<open>
  \<^verbatim>\<open>c.decode('utf-8')\<close> on bytes: the strict decoder accepts exactly the well-formed UTF-8
  byte sequences (no overlong forms, no surrogates, nothing above U+10FFFF) and raises
  \<^verbatim>\<open>UnicodeDecodeError\<close> on the rest. The decoded string is held as its UTF-8 encoding, that
  is as the same bytes.
\<close>

definition continuation :: "nat \<Rightarrow> bool" where
  "continuation b = (0x80 \<le> b \<and> b \<le> 0xBF)"

fun valid_utf8 :: "nat list \<Rightarrow> bool" where
  "valid_utf8 [] = True"
| "valid_utf8 (b # bs) =
     (if b < 0x80 then valid_utf8 bs
      else if 0xC2 \<le> b \<and> b \<le> 0xDF then
        (case bs of
           b1 # rest \<Rightarrow> continuation b1 \<and> valid_utf8 rest
         | _ \<Rightarrow> False)
      else if 0xE0 \<le> b \<and> b \<le> 0xEF then
        (case bs of
           b1 # b2 # rest \<Rightarrow>
             (if b = 0xE0 then 0xA0 \<le> b1 \<and> b1 \<le> 0xBF
              else if b = 0xED then 0x80 \<le> b1 \<and> b1 \<le> 0x9F
              else continuation b1)
             \<and> continuation b2 \<and> valid_utf8 rest
         | _ \<Rightarrow> False)
      else if 0xF0 \<le> b \<and> b \<le> 0xF4 then
        (case bs of
           b1 # b2 # b3 # rest \<Rightarrow>
             (if b = 0xF0 then 0x90 \<le> b1 \<and> b1 \<le> 0xBF
              else if b = 0xF4 then 0x80 \<le> b1 \<and> b1 \<le> 0x8F
              else continuation b1)
             \<and> continuation b2 \<and> continuation b3 \<and> valid_utf8 rest
         | _ \<Rightarrow> False)
      else False)"

definition decode :: "string \<Rightarrow> string result" where
  "decode c = (if valid_utf8 (map of_char c) then Inr c else Inl UnicodeDecodeError)"

text \<open>\<^verbatim>\<open>[c.decode('utf-8') for c in r.iter_content(None)]\<close>\<close>

fun decode_chunks :: "string list \<Rightarrow> string list result" where
  "decode_chunks [] = Inr []"
| "decode_chunks (c # cs) =
     (case decode c of
        Inl e \<Rightarrow> Inl e
      | Inr s \<Rightarrow> (case decode_chunks cs of Inl e \<Rightarrow> Inl e | Inr ss \<Rightarrow> Inr (s # ss)))"

text \<open>
  The statement under \<^verbatim>\<open>if r.status_code != 200:\<close>, the same in the three methods: it
  raises the \<^verbatim>\<open>RequestException\<close> whose message is the decoded chunks joined by newlines,
  unless a chunk does not decode.
\<close>

definition raise_request_exception :: "response \<Rightarrow> exn" where
  "raise_request_exception r =
     (case decode_chunks (iter_content r) of
        Inl e \<Rightarrow> e
      | Inr cs \<Rightarrow> RequestException (join newline cs))"

section \<open>The file uploader: \<^verbatim>\<open>_upload_train_file\<close>\<close>

text \<open>
  Modelled from the spec: \<^verbatim>\<open>FileHandlerBase.get_finetune_data\<close>, which \<^verbatim>\<open>_upload_train_file\<close>
  calls and whose file (\<^verbatim>\<open>fileHandler.py\<close>) is not among the sources. By the specification
  the uploader sends the converted dataset, held in a transient buffer or temporary file that
  it has to release; so the call converts the training file and leaves the text in a fresh,
  open file object at \<^verbatim>\<open>self._dataHandler\<close>, or fails as the conversion does.
\<close>

definition get_finetune_data :: "OpenAIModule \<Rightarrow> jsonl_file \<Rightarrow> unit result \<times> OpenAIModule" where
  "get_finetune_data self train_file =
     (case convert_file_format train_file of
        Inl e \<Rightarrow> (Inl e, self)
      | Inr text \<Rightarrow> (Inr (), self\<lparr>dataHandler := Some \<lparr>written = text, closed = False\<rparr>\<rparr>))"

text \<open>\<^verbatim>\<open>self._dataHandler.close()\<close>; \<^verbatim>\<open>None\<close> has no such method.\<close>

definition close_dataHandler :: "OpenAIModule \<Rightarrow> OpenAIModule result" where
  "close_dataHandler self =
     (case dataHandler self of
        None \<Rightarrow> Inl (AttributeError ''close'')
      | Some h \<Rightarrow> Inr (self\<lparr>dataHandler := Some (h\<lparr>closed := True\<rparr>)\<rparr>))"

text \<open>
  Lines 99 to 112. The result is the outcome of the call (the exception raised or the value
  returned) together with \<open>self\<close> as the call leaves it.
\<close>

definition upload_train_file ::
  "OpenAIModule \<Rightarrow> jsonl_file \<Rightarrow> response \<Rightarrow> json result \<times> OpenAIModule" where
  "upload_train_file self train_file r =
     (case get_finetune_data self train_file of
        (Inl e, self1) \<Rightarrow> (Inl e, self1)
      | (Inr u, self1) \<Rightarrow>
          if status_code r \<noteq> 200 then (Inl (raise_request_exception r), self1)
          else
            (case close_dataHandler self1 of
               Inl e \<Rightarrow> (Inl e, self1)
             | Inr self2 \<Rightarrow>
                 (case response_json r of
                    Inl e \<Rightarrow> (Inl e, self2)
                  | Inr body \<Rightarrow> (getitem body ''id'', self2))))"

section \<open>The job submitter and the job poller\<close>

text \<open>Lines 130 to 136; \<^verbatim>\<open>r.json()\<close> is called once for each field.\<close>

definition create_finetuning_job ::
  "OpenAIModule \<Rightarrow> response \<Rightarrow> (json \<times> json) result \<times> OpenAIModule" where
  "create_finetuning_job self r =
     (if status_code r \<noteq> 200 then (Inl (raise_request_exception r), self)
      else
        (case response_json r of
           Inl e \<Rightarrow> (Inl e, self)
         | Inr body \<Rightarrow>
             (case getitem body ''id'' of
                Inl e \<Rightarrow> (Inl e, self)
              | Inr fine_tuning_job_id \<Rightarrow>
                  (case response_json r of
                     Inl e \<Rightarrow> (Inl e, self)
                   | Inr body2 \<Rightarrow>
                       (case getitem body2 ''status'' of
                          Inl e \<Rightarrow> (Inl e, self)
                        | Inr status \<Rightarrow> (Inr (fine_tuning_job_id, status), self))))))"

text \<open>
  \<^verbatim>\<open>status.lower()\<close>: only a string has the method. \<^verbatim>\<open>str.lower\<close> maps the letters A to Z
  to a to z; on other characters it follows the Unicode case mapping, which sends no other
  character to one of the letters of \<^verbatim>\<open>succeeded\<close>. The model leaves those characters
  alone, which gives the comparison on line 152 the value it has in Python.
\<close>

definition lower_char :: "char \<Rightarrow> char" where
  "lower_char c =
     (if (65::nat) \<le> of_char c \<and> of_char c \<le> (90::nat) then char_of (of_char c + (32::nat))
      else c)"

fun lower :: "json \<Rightarrow> string result" where
  "lower (JStr s) = Inr (map lower_char s)"
| "lower JNull = Inl (AttributeError ''lower'')"
| "lower (JBool b) = Inl (AttributeError ''lower'')"
| "lower (JInt i) = Inl (AttributeError ''lower'')"
| "lower (JFloat f) = Inl (AttributeError ''lower'')"
| "lower (JArr xs) = Inl (AttributeError ''lower'')"
| "lower (JObj d) = Inl (AttributeError ''lower'')"

text \<open>Lines 146 to 154. The first component of the pair is \<open>JNull\<close> for Python's \<^verbatim>\<open>None\<close>.\<close>

definition query_finetuning_job ::
  "OpenAIModule \<Rightarrow> response \<Rightarrow> (json \<times> json) result \<times> OpenAIModule" where
  "query_finetuning_job self r =
     (if status_code r \<noteq> 200 then (Inl (raise_request_exception r), self)
      else
        (case response_json r of
           Inl e \<Rightarrow> (Inl e, self)
         | Inr body \<Rightarrow>
             (case getitem body ''status'' of
                Inl e \<Rightarrow> (Inl e, self)
              | Inr status \<Rightarrow>
                  (case lower status of
                     Inl e \<Rightarrow> (Inl e, self)
                   | Inr low \<Rightarrow>
                       if low = ''succeeded'' then
                         (case response_json r of
                            Inl e \<Rightarrow> (Inl e, self)
                          | Inr body2 \<Rightarrow>
                              (case getitem body2 ''fine_tuned_model'' of
                                 Inl e \<Rightarrow> (Inl e, self)
                               | Inr fine_tuned_model \<Rightarrow> (Inr (fine_tuned_model, status), self)))
                       else (Inr (JNull, status), self)))))"

section \<open>The deployment stub\<close>

text \<open>
  Lines 156 to 166. Neither method has a statement that can raise or that assigns to an
  attribute, so each returns its value and \<open>self\<close> as it was.
\<close>

definition create_deployment :: "OpenAIModule \<Rightarrow> (string \<times> string) \<times> OpenAIModule" where
  "create_deployment self = ((model_name self, ''RUNNING''), self)"

definition query_deployment :: "OpenAIModule \<Rightarrow> 'a \<Rightarrow> string \<times> OpenAIModule" where
  "query_deployment self deployment_id = (''RUNNING'', self)"

section \<open>Vocabulary of the specification\<close>

text \<open>
  The definitions of this section are not translations of code. They say, in terms of the
  operations above, what the specification's sentences speak about, and are used to state
  the theorems only.
\<close>

fun is_dict :: "json \<Rightarrow> bool" where
  "is_dict (JObj d) = True"
| "is_dict JNull = False"
| "is_dict (JBool b) = False"
| "is_dict (JInt i) = False"
| "is_dict (JFloat f) = False"
| "is_dict (JStr s) = False"
| "is_dict (JArr xs) = False"

text \<open>
  A training record of the conversational shape: a JSON object whose \<^verbatim>\<open>messages\<close> entry, when
  there is one, is an array of JSON objects.
\<close>

definition conversational :: "json \<Rightarrow> bool" where
  "conversational ex =
     (case ex of
        JObj d \<Rightarrow>
          (case map_of d ''messages'' of
             None \<Rightarrow> True
           | Some (JArr ms) \<Rightarrow> list_all is_dict ms
           | Some _ \<Rightarrow> False)
      | _ \<Rightarrow> False)"

text \<open>The messages of a record, and whether a message has one of the three recognised roles.\<close>

definition messages_of :: "json \<Rightarrow> json list" where
  "messages_of ex = (case get ex ''messages'' (JArr []) of Inr (JArr ms) \<Rightarrow> ms | _ \<Rightarrow> [])"

definition recognised :: "json \<Rightarrow> bool" where
  "recognised m = (case get m ''role'' (JStr []) of Inr role \<Rightarrow> role \<in> set roles | Inl e \<Rightarrow> False)"

text \<open>
  What is kept of a message: its role and its content, each with the empty string for a
  missing key.
\<close>

definition role_content :: "json \<Rightarrow> json" where
  "role_content m =
     (case m of
        JObj d \<Rightarrow>
          JObj [(''role'', case map_of d ''role'' of None \<Rightarrow> JStr [] | Some v \<Rightarrow> v),
                (''content'', case map_of d ''content'' of None \<Rightarrow> JStr [] | Some v \<Rightarrow> v)]
      | _ \<Rightarrow> JNull)"

text \<open>The record the specification expects for an input record.\<close>

definition filtered_example :: "json \<Rightarrow> json" where
  "filtered_example ex =
     JObj [(''messages'', JArr (map role_content (filter recognised (messages_of ex))))]"

text \<open>The number, counted from 1, of the first line of a file that is not valid JSON.\<close>

fun offending_line :: "jsonl_file \<Rightarrow> nat option" where
  "offending_line [] = None"
| "offending_line (Malformed msg doc pos # rest) = Some 1"
| "offending_line (Parsed ex # rest) = map_option Suc (offending_line rest)"

text \<open>
  Already well-formed input: a record all of whose messages are \<^verbatim>\<open>{role, content}\<close> pairs,
  that is JSON objects with the two keys \<^verbatim>\<open>role\<close> and \<^verbatim>\<open>content\<close> (in either order) and
  nothing else, the role one of the three recognised ones.
\<close>

definition pair_message :: "json \<Rightarrow> bool" where
  "pair_message m =
     (case m of
        JObj d \<Rightarrow>
          length d = 2
          \<and> (case map_of d ''role'' of None \<Rightarrow> False | Some role \<Rightarrow> role \<in> set roles)
          \<and> (case map_of d ''content'' of None \<Rightarrow> False | Some c \<Rightarrow> True)
      | _ \<Rightarrow> False)"

definition well_formed :: "json \<Rightarrow> bool" where
  "well_formed ex =
     (case ex of
        JObj d \<Rightarrow>
          (case map_of d ''messages'' of
             None \<Rightarrow> True
           | Some (JArr ms) \<Rightarrow> list_all pair_message ms
           | Some _ \<Rightarrow> False)
      | _ \<Rightarrow> False)"

text \<open>
  The messages of a record as the sequence of their (role, content) pairs: two records with
  the same sequence hold the same messages in the same order.
\<close>

definition dialogue :: "json \<Rightarrow> (json result \<times> json result) list" where
  "dialogue ex =
     map (\<lambda>m. (getitem m ''role'', getitem m ''content'')) (messages_of ex)"

text \<open>
  A text without a line break. A float is kept as the text that is printed for it, and the
  text Python prints for a float has no line break; \<open>floats_on_one_line\<close> says that of every
  float inside a value.
\<close>

definition single_line :: "string \<Rightarrow> bool" where
  "single_line s = list_all (\<lambda>c. c \<noteq> CHR 0x0A \<and> c \<noteq> CHR 0x0D) s"

fun floats_on_one_line :: "json \<Rightarrow> bool" where
  "floats_on_one_line (JFloat f) = single_line f"
| "floats_on_one_line (JArr xs) = list_all floats_on_one_line xs"
| "floats_on_one_line (JObj d) = list_all (\<lambda>kv. floats_on_one_line (snd kv)) d"
| "floats_on_one_line JNull = True"
| "floats_on_one_line (JBool b) = True"
| "floats_on_one_line (JInt i) = True"
| "floats_on_one_line (JStr s) = True"

text \<open>
  The round trip of the library on one record: the parser, given the text that
  \<^verbatim>\<open>json.dumps\<close> wrote for the record, with or without a line ending after it, returns the
  record.
\<close>

definition round_trips :: "(string \<Rightarrow> line) \<Rightarrow> json \<Rightarrow> bool" where
  "round_trips loads x =
     (loads (json_dumps x) = Parsed x \<and> loads (json_dumps x @ newline) = Parsed x)"

section \<open>Example inputs\<close>

text \<open>
  The two records of the specification's end-to-end scenario for the converter, a module
  object, and the responses used below: the 400 response of the upload scenario, whose body
  \<^verbatim>\<open>bad request\<close> is not JSON; a 200 response with a JSON body; and a 200 response whose
  body is not JSON and happens to be the very text of the parser's complaint about it.
\<close>

definition scenario_first :: json where
  "scenario_first =
     JObj [(''messages'', JArr
       [JObj [(''role'', JStr ''system''), (''content'', JStr ''S'')],
        JObj [(''role'', JStr ''user''), (''content'', JStr ''Hi'')],
        JObj [(''role'', JStr ''tool''), (''content'', JStr ''X'')],
        JObj [(''role'', JStr ''assistant''), (''content'', JStr ''Hello'')]])]"

definition scenario_second :: json where
  "scenario_second =
     JObj [(''messages'', JArr
       [JObj [(''role'', JStr ''user''), (''content'', JStr ''Q'')],
        JObj [(''role'', JStr ''assistant''), (''content'', JStr ''A'')]])]"

text \<open>
  A last line of a file, without a line ending, with the text \<^verbatim>\<open>{bad\<close>, on which
  \<^verbatim>\<open>json.loads\<close> raises at position 1.
\<close>

definition bad_line :: line where
  "bad_line = Malformed ''Expecting property name enclosed in double quotes'' ''{bad'' 1"

definition module0 :: OpenAIModule where
  "module0 =
     \<lparr>api_key = ''sk-test'', base_url = ''https://api.openai.com/v1'',
      model_name = ''gpt-3.5-turbo'', dataHandler = None\<rparr>"

definition bad_request :: response where
  "bad_request =
     \<lparr>status_code = 400, iter_content = [''bad request''],
      body_json = Inl ''Expecting value: line 1 column 1 (char 0)''\<rparr>"

definition ok_with :: "json \<Rightarrow> response" where
  "ok_with body = \<lparr>status_code = 200, iter_content = [], body_json = Inr body\<rparr>"

definition complaint :: string where
  "complaint = ''Expecting value: line 1 column 1 (char 0)''"

definition ok_not_json :: response where
  "ok_not_json = \<lparr>status_code = 200, iter_content = [complaint], body_json = Inl complaint\<rparr>"

text \<open>
  A record whose message has its keys in the other order and a number for its content, the
  record the converter makes of it, and what \<^verbatim>\<open>json.loads\<close> does on the lines of the text
  converted from \<open>scenario_second\<close> and this record. The function \<open>loads0\<close> is the parser
  on these lines; no other text is given to it below.
\<close>

definition reversed_keys :: json where
  "reversed_keys =
     JObj [(''messages'', JArr [JObj [(''content'', JInt 7), (''role'', JStr ''system'')]])]"

definition reversed_keys_converted :: json where
  "reversed_keys_converted =
     JObj [(''messages'', JArr [JObj [(''role'', JStr ''system''), (''content'', JInt 7)]])]"

definition loads0 :: "string \<Rightarrow> line" where
  \<open>loads0 s =
     (if s = ''{"messages": [{"role": "user", "content": "Q"}, {"role": "assistant", "content": "A"}]}''
           @ [CHR 0x0A]
      then Parsed scenario_second
      else if s = ''{"messages": [{"role": "user", "content": "Q"}, {"role": "assistant", "content": "A"}]}''
      then Parsed scenario_second
      else if s = ''{"messages": [{"role": "system", "content": 7}]}'' @ [CHR 0x0A]
      then Parsed reversed_keys_converted
      else if s = ''{"messages": [{"role": "system", "content": 7}]}''
      then Parsed reversed_keys_converted
      else Malformed ''Expecting value'' s 0)\<close>

section \<open>The converter: what it keeps, what it drops, when it fails\<close>

lemma load_dataset_parsed: "load_dataset (map Parsed dataset) = Inr dataset"
  by (induction dataset) simp_all

lemma load_dataset_malformed:
  "load_dataset (map Parsed pre @ Malformed msg doc pos # rest)
     = Inl (JSONDecodeError msg doc pos)"
  by (induction pre) simp_all

text \<open>
  On an array of JSON objects the inner loop never raises: it appends, in order, the
  (role, content) form of the messages with a recognised role.
\<close>

lemma convert_messages_dicts:
  "list_all is_dict ms \<Longrightarrow>
   convert_messages ms acc = Inr (acc @ map role_content (filter recognised ms))"
proof (induction ms arbitrary: acc)
  case Nil
  show ?case by simp
next
  case (Cons m ms)
  from Cons.prems obtain d where m: "m = JObj d" by (cases m) simp_all
  from Cons.prems have rest: "list_all is_dict ms" by simp
  show ?case
    by (simp add: m Cons.IH [OF rest] recognised_def role_content_def)
qed

lemma convert_example_conversational:
  assumes "conversational ex"
  shows "convert_example ex = Inr (filtered_example ex)"
proof -
  from assms obtain d where ex: "ex = JObj d"
    by (cases ex) (simp_all add: conversational_def)
  show ?thesis
  proof (cases "map_of d ''messages''")
    case None
    then show ?thesis
      by (simp add: ex convert_example_def filtered_example_def messages_of_def)
  next
    case (Some v)
    with assms ex obtain ms where v: "v = JArr ms" and ms: "list_all is_dict ms"
      by (cases v) (simp_all add: conversational_def)
    show ?thesis
      by (simp add: ex Some v convert_example_def filtered_example_def messages_of_def
          convert_messages_dicts [OF ms])
  qed
qed

lemma convert_examples_conversational:
  "list_all conversational dataset \<Longrightarrow>
   convert_examples dataset = Inr (map filtered_example dataset)"
  by (induction dataset) (simp_all add: convert_example_conversational)

lemma convert_file_format_parsed:
  "convert_examples dataset = Inr out \<Longrightarrow>
   convert_file_format (map Parsed dataset) = Inr (join newline (map json_dumps out))"
  by (simp add: convert_file_format_def load_dataset_parsed)

text \<open>
  Claim C4, as amended. When every line of the input parses to a JSON object whose
  \<^verbatim>\<open>messages\<close> entry, if there is one, is an array of JSON objects, the conversion succeeds
  and its output is, record by record and in the order of the input lines, the record that
  holds the (role, content) form of exactly the messages whose role is \<^verbatim>\<open>system\<close>,
  \<^verbatim>\<open>user\<close> or \<^verbatim>\<open>assistant\<close>, in their original order; the output text is these records
  serialised and joined by newlines, and there are as many of them as input lines.
\<close>

theorem convert_filters_roles:
  assumes "list_all conversational dataset"
  shows "convert_examples dataset = Inr (map filtered_example dataset)
       \<and> convert_file_format (map Parsed dataset)
           = Inr (join newline (map json_dumps (map filtered_example dataset)))
       \<and> length (map filtered_example dataset) = length dataset"
proof -
  note records = convert_examples_conversational [OF assms]
  from records convert_file_format_parsed [OF records] show ?thesis by simp
qed

text \<open>
  The end-to-end scenario of the specification: the first record loses its \<^verbatim>\<open>tool\<close>
  message and keeps the other three in order, the second record is unchanged.
\<close>

theorem convert_filters_roles_witness:
  "list_all conversational [scenario_first, scenario_second]
   \<and> convert_examples [scenario_first, scenario_second]
       = Inr [JObj [(''messages'', JArr
                [JObj [(''role'', JStr ''system''), (''content'', JStr ''S'')],
                 JObj [(''role'', JStr ''user''), (''content'', JStr ''Hi'')],
                 JObj [(''role'', JStr ''assistant''), (''content'', JStr ''Hello'')]])],
              scenario_second]"
proof -
  have typed: "list_all conversational [scenario_first, scenario_second]"
    by (simp add: conversational_def scenario_first_def scenario_second_def)
  from convert_filters_roles [OF typed] typed show ?thesis
    by (simp add: filtered_example_def messages_of_def recognised_def role_content_def
        roles_def scenario_first_def scenario_second_def)
qed

text \<open>
  The claim as stated asks only that every line parses as JSON. The line
  \<^verbatim>\<open>{"messages": null}\<close> parses, to an object even, and the conversion raises \<^verbatim>\<open>TypeError\<close>
  on it (\<^verbatim>\<open>None\<close> is not iterable) instead of producing a record.
\<close>

theorem convert_null_messages_counterexample:
  "convert_file_format [Parsed (JObj [(''messages'', JNull)])] = Inl TypeError"
  by (simp add: convert_file_format_def convert_example_def)

lemma malformed_line_split:
  "Malformed m0 d0 p0 \<in> set fr \<Longrightarrow>
   \<exists>pre msg doc pos rest.
     fr = map Parsed pre @ Malformed msg doc pos # rest
     \<and> offending_line fr = Some (Suc (length pre))"
proof (induction fr)
  case Nil
  then show ?case by simp
next
  case (Cons l fr)
  show ?case
  proof (cases l)
    case (Malformed msg doc pos)
    then have "l # fr = map Parsed [] @ Malformed msg doc pos # fr
        \<and> offending_line (l # fr) = Some (Suc (length ([] :: json list)))"
      by simp
    then show ?thesis by blast
  next
    case (Parsed ex)
    with Cons.prems have "Malformed m0 d0 p0 \<in> set fr" by simp
    from Cons.IH [OF this] obtain pre msg doc pos rest
      where "fr = map Parsed pre @ Malformed msg doc pos # rest"
        and "offending_line fr = Some (Suc (length pre))"
      by blast
    with Parsed have "l # fr = map Parsed (ex # pre) @ Malformed msg doc pos # rest
        \<and> offending_line (l # fr) = Some (Suc (length (ex # pre)))"
      by simp
    then show ?thesis by blast
  qed
qed

text \<open>
  Claim C5, as amended. When a line of the file is not valid JSON, the conversion fails as
  a whole: it returns no text, and raises the \<^verbatim>\<open>JSONDecodeError\<close> that the parser raises on
  the first such line. The error holds the parser's message, the text of that line and the
  position in that text; the number of the line in the file is not part of it.
\<close>

theorem convert_fails_on_malformed_line:
  assumes "Malformed m0 d0 p0 \<in> set fr"
  shows "\<exists>pre msg doc pos rest.
           fr = map Parsed pre @ Malformed msg doc pos # rest
           \<and> offending_line fr = Some (Suc (length pre))
           \<and> convert_file_format fr = Inl (JSONDecodeError msg doc pos)"
proof -
  from malformed_line_split [OF assms] obtain pre msg doc pos rest
    where fr: "fr = map Parsed pre @ Malformed msg doc pos # rest"
      and n: "offending_line fr = Some (Suc (length pre))"
    by blast
  have "convert_file_format fr = Inl (JSONDecodeError msg doc pos)"
    by (simp add: fr convert_file_format_def load_dataset_malformed)
  with fr n show ?thesis by blast
qed

theorem convert_fails_on_malformed_line_witness:
  "bad_line \<in> set [Parsed scenario_first, Parsed scenario_second, bad_line]
   \<and> convert_file_format [Parsed scenario_first, Parsed scenario_second, bad_line]
       = Inl (JSONDecodeError ''Expecting property name enclosed in double quotes'' ''{bad'' 1)"
proof -
  let ?fr = "[Parsed scenario_first, Parsed scenario_second, bad_line]"
  have contains:
    "Malformed ''Expecting property name enclosed in double quotes'' ''{bad'' 1 \<in> set ?fr"
    by (simp add: bad_line_def)
  from convert_fails_on_malformed_line [OF contains] obtain pre msg doc pos rest
    where split: "?fr = map Parsed pre @ Malformed msg doc pos # rest"
      and n: "offending_line ?fr = Some (Suc (length pre))"
      and fails: "convert_file_format ?fr = Inl (JSONDecodeError msg doc pos)"
    by blast
  from n have "length pre = 2" by (simp add: bad_line_def)
  then obtain a b where "pre = [a, b]"
    by (cases pre; cases "tl pre") auto
  with split have "Malformed msg doc pos = bad_line"
    by (simp add: bad_line_def)
  with fails contains show ?thesis by (simp add: bad_line_def)
qed

text \<open>
  The same malformed text as the first line of one file and as the second line of another
  makes the conversion fail with one and the same error: the error does not name the line.
\<close>

theorem error_without_line_number_counterexample:
  "offending_line [bad_line] = Some 1
   \<and> offending_line [Parsed (JObj []), bad_line] = Some 2
   \<and> convert_file_format [bad_line] = convert_file_format [Parsed (JObj []), bad_line]
   \<and> convert_file_format [bad_line]
       = Inl (JSONDecodeError ''Expecting property name enclosed in double quotes'' ''{bad'' 1)"
  by (simp add: convert_file_format_def bad_line_def)

section \<open>The converter on input that is already well formed\<close>

lemma pair_message_kept:
  assumes "pair_message m"
  shows "is_dict m" and "recognised m" and "pair_message (role_content m)"
    and "getitem (role_content m) ''role'' = getitem m ''role''"
    and "getitem (role_content m) ''content'' = getitem m ''content''"
proof -
  from assms obtain d where m: "m = JObj d"
    by (cases m) (simp_all add: pair_message_def)
  from assms m obtain role c where r: "map_of d ''role'' = Some role" "role \<in> set roles"
    and c: "map_of d ''content'' = Some c"
    by (auto simp: pair_message_def split: option.splits)
  show "is_dict m" by (simp add: m)
  show "recognised m" using r by (simp add: m recognised_def)
  show "pair_message (role_content m)"
    using r c by (simp add: m pair_message_def role_content_def)
  show "getitem (role_content m) ''role'' = getitem m ''role''"
    using r by (simp add: m role_content_def)
  show "getitem (role_content m) ''content'' = getitem m ''content''"
    using c by (simp add: m role_content_def)
qed

lemma pair_messages_kept:
  "list_all pair_message ms \<Longrightarrow>
   filter recognised ms = ms \<and> list_all is_dict ms
   \<and> list_all pair_message (map role_content ms)
   \<and> map (\<lambda>m. (getitem m ''role'', getitem m ''content'')) (map role_content ms)
       = map (\<lambda>m. (getitem m ''role'', getitem m ''content'')) ms"
  by (induction ms) (simp_all add: pair_message_kept)

lemma well_formed_messages:
  assumes "well_formed ex"
  shows "conversational ex \<and> list_all pair_message (messages_of ex)"
proof -
  from assms obtain d where ex: "ex = JObj d"
    by (cases ex) (simp_all add: well_formed_def)
  show ?thesis
  proof (cases "map_of d ''messages''")
    case None
    then show ?thesis
      by (simp add: ex conversational_def messages_of_def)
  next
    case (Some v)
    with assms ex obtain ms where v: "v = JArr ms" and ms: "list_all pair_message ms"
      by (cases v) (simp_all add: well_formed_def)
    from pair_messages_kept [OF ms] ms show ?thesis
      by (simp add: ex Some v conversational_def messages_of_def)
  qed
qed

lemma well_formed_filtered:
  assumes "well_formed ex"
  shows "dialogue (filtered_example ex) = dialogue ex"
proof -
  from well_formed_messages [OF assms] have "list_all pair_message (messages_of ex)" ..
  from pair_messages_kept [OF this] show ?thesis
    by (simp add: dialogue_def filtered_example_def messages_of_def)
qed

lemma well_formed_list:
  "list_all well_formed dataset \<Longrightarrow>
   list_all conversational dataset
   \<and> map dialogue (map filtered_example dataset) = map dialogue dataset"
  by (induction dataset) (simp_all add: well_formed_filtered well_formed_messages)

text \<open>
  Converting twice is converting once, for every conversational record: the (role, content)
  form of a message is its own (role, content) form and has the same role.
\<close>

lemma role_content_twice: "is_dict m \<Longrightarrow> role_content (role_content m) = role_content m"
  by (cases m) (simp_all add: role_content_def)

lemma recognised_role_content: "is_dict m \<Longrightarrow> recognised (role_content m) = recognised m"
  by (cases m) (simp_all add: role_content_def recognised_def)

lemma is_dict_role_content: "is_dict m \<Longrightarrow> is_dict (role_content m)"
  by (cases m) (simp_all add: role_content_def)

lemma refilter:
  "list_all is_dict ms \<Longrightarrow>
   map role_content (filter recognised (map role_content (filter recognised ms)))
     = map role_content (filter recognised ms)"
  by (induction ms) (simp_all add: role_content_twice recognised_role_content)

lemma dicts_kept:
  "list_all is_dict ms \<Longrightarrow> list_all is_dict (map role_content (filter recognised ms))"
  by (induction ms) (simp_all add: is_dict_role_content)

lemma messages_of_conversational:
  "conversational ex \<Longrightarrow> list_all is_dict (messages_of ex)"
  by (auto simp: conversational_def messages_of_def split: json.splits option.splits)

lemma filtered_example_twice:
  assumes "conversational ex"
  shows "conversational (filtered_example ex)"
    and "filtered_example (filtered_example ex) = filtered_example ex"
proof -
  note dicts = messages_of_conversational [OF assms]
  show "conversational (filtered_example ex)"
    using dicts_kept [OF dicts] by (simp add: filtered_example_def conversational_def)
  show "filtered_example (filtered_example ex) = filtered_example ex"
    using refilter [OF dicts] by (simp add: filtered_example_def messages_of_def)
qed

lemma filtered_examples_twice:
  "list_all conversational dataset \<Longrightarrow>
   list_all conversational (map filtered_example dataset)
   \<and> map filtered_example (map filtered_example dataset) = map filtered_example dataset"
  by (induction dataset) (simp_all add: filtered_example_twice)

text \<open>
  Claim C10. In the inner loop, a message object without a \<^verbatim>\<open>role\<close> key has the empty
  string for its role and is dropped: the loop goes on with the list it had. A message
  object with a recognised role and without a \<^verbatim>\<open>content\<close> key has the empty string for
  its content and is appended with it. In both cases the step raises nothing, whatever comes
  before or after the message in the array.
\<close>

theorem missing_role_dropped_missing_content_empty:
  "(map_of d ''role'' = None \<longrightarrow>
      get (JObj d) ''role'' (JStr []) = Inr (JStr [])
      \<and> JStr [] \<notin> set roles
      \<and> convert_messages (JObj d # rest) acc = convert_messages rest acc)
 \<and> (map_of d ''role'' = Some role \<and> role \<in> set roles \<and> map_of d ''content'' = None \<longrightarrow>
      get (JObj d) ''content'' (JStr []) = Inr (JStr [])
      \<and> convert_messages (JObj d # rest) acc
          = convert_messages rest (acc @ [JObj [(''role'', role), (''content'', JStr [])]]))"
  by (simp add: roles_def)

theorem missing_role_dropped_missing_content_empty_witness:
  "convert_messages [JObj [(''content'', JStr ''X'')]] [] = Inr []
   \<and> convert_messages [JObj [(''role'', JStr ''user'')]] []
       = Inr [JObj [(''role'', JStr ''user''), (''content'', JStr [])]]"
proof -
  have no_role: "map_of [(''content'', JStr ''X'')] ''role'' = None" by simp
  have no_content:
    "map_of [(''role'', JStr ''user'')] ''role'' = Some (JStr ''user'')
     \<and> JStr ''user'' \<in> set roles \<and> map_of [(''role'', JStr ''user'')] ''content'' = None"
    by (simp add: roles_def)
  from no_role no_content
    missing_role_dropped_missing_content_empty
      [where d = "[(''content'', JStr ''X'')]" and rest = "[]" and acc = "[]"
         and role = "JStr ''user''"]
    missing_role_dropped_missing_content_empty
      [where d = "[(''role'', JStr ''user'')]" and rest = "[]" and acc = "[]"
         and role = "JStr ''user''"]
  show ?thesis by simp
qed

section \<open>Reading the converted text back\<close>

text \<open>What \<^verbatim>\<open>json.dumps\<close> writes for a value is one line.\<close>

lemma single_line_append [simp]: "single_line (a @ b) = (single_line a \<and> single_line b)"
  by (simp add: single_line_def)

lemma single_line_Cons [simp]:
  "single_line (c # s) = (c \<noteq> CHR 0x0A \<and> c \<noteq> CHR 0x0D \<and> single_line s)"
  by (simp add: single_line_def)

lemma single_line_Nil [simp]: "single_line []"
  by (simp add: single_line_def)

lemma hex_digit_cases: "hex_digit n \<in> set ''0123456789abcdef''"
proof -
  have "n mod 16 < length ''0123456789abcdef''" by simp
  then show ?thesis unfolding hex_digit_def by (rule nth_mem)
qed

lemma hex_digit_no_break: "hex_digit n \<noteq> CHR 0x0A \<and> hex_digit n \<noteq> CHR 0x0D"
  using hex_digit_cases [of n] by auto

lemma single_line_digits: "single_line (digits n)"
proof (induction n rule: digits.induct)
  case (1 n)
  show ?case
  proof (cases "n < 10")
    case True
    then show ?thesis by (simp add: digits.simps [of n] hex_digit_no_break)
  next
    case False
    with "1.IH" show ?thesis by (simp add: digits.simps [of n] hex_digit_no_break)
  qed
qed

lemma single_line_escape_char: "single_line (escape_char c)"
  by (simp add: escape_char_def hex_digit_no_break)

lemma single_line_concat: "list_all single_line ss \<Longrightarrow> single_line (concat ss)"
  by (induction ss) simp_all

lemma single_line_encode_basestring: "single_line (encode_basestring s)"
proof -
  have "list_all single_line (map escape_char s)"
    by (induction s) (simp_all add: single_line_escape_char)
  then show ?thesis by (simp add: encode_basestring_def single_line_concat)
qed

lemma single_line_join:
  "single_line sep \<Longrightarrow> list_all single_line ss \<Longrightarrow> single_line (join sep ss)"
  by (induction sep ss rule: join.induct) simp_all

lemma single_line_json_dumps: "floats_on_one_line x \<Longrightarrow> single_line (json_dumps x)"
proof (induction x rule: json_dumps.induct)
  case (6 xs)
  then have "list_all single_line (map json_dumps xs)"
    by (simp add: list_all_iff)
  then show ?case by (simp add: single_line_join)
next
  case (7 d)
  then have "list_all single_line
      (map (\<lambda>kv. encode_basestring (fst kv) @ '': '' @ json_dumps (snd kv)) d)"
    by (simp add: list_all_iff single_line_encode_basestring)
  then show ?case by (simp add: single_line_join)
qed (simp_all add: int_repr_def single_line_digits single_line_encode_basestring)

text \<open>The lines of one-line texts joined by newlines are these texts, in order.\<close>

lemma text_lines_single_line:
  "single_line s \<Longrightarrow> text_lines cur (s @ rest) = text_lines (cur @ s) rest"
  by (induction s arbitrary: cur) simp_all

lemma text_lines_one: "single_line s \<Longrightarrow> s \<noteq> [] \<Longrightarrow> text_lines [] s = [s]"
  using text_lines_single_line [of s "[]" "[]"] by simp

lemma text_lines_first:
  "single_line s \<Longrightarrow> text_lines [] (s @ newline @ rest) = (s @ newline) # text_lines [] rest"
  using text_lines_single_line [of s "[]" "newline @ rest"] by (simp add: newline_def)

lemma read_lines_records:
  "list_all (\<lambda>x. single_line (json_dumps x) \<and> json_dumps x \<noteq> [] \<and> round_trips loads x) out
   \<Longrightarrow> map loads (text_lines [] (join newline (map json_dumps out))) = map Parsed out"
proof (induction out rule: induct_list012)
  case 1
  show ?case by simp
next
  case (2 x)
  then show ?case by (simp add: text_lines_one round_trips_def)
next
  case (3 x y zs)
  from "3.prems" have rest:
    "list_all (\<lambda>x. single_line (json_dumps x) \<and> json_dumps x \<noteq> [] \<and> round_trips loads x)
       (y # zs)"
    by simp
  from "3.prems" "3.IH"(2) [OF rest] show ?case
    by (simp add: text_lines_first round_trips_def)
qed

lemma floats_on_one_line_lookup:
  "floats_on_one_line (JObj d) \<Longrightarrow> map_of d k = Some v \<Longrightarrow> floats_on_one_line v"
  by (auto simp: list_all_iff dest!: map_of_SomeD)

lemma floats_on_one_line_role_content:
  "floats_on_one_line m \<Longrightarrow> floats_on_one_line (role_content m)"
  by (cases m) (auto simp: role_content_def split: option.splits
      dest: floats_on_one_line_lookup [rotated])

lemma floats_on_one_line_messages_of:
  "floats_on_one_line ex \<Longrightarrow> list_all floats_on_one_line (messages_of ex)"
  by (cases ex) (auto simp: messages_of_def split: option.splits json.splits
      dest: floats_on_one_line_lookup [rotated])

lemma floats_on_one_line_filtered_example:
  assumes "floats_on_one_line ex"
  shows "floats_on_one_line (filtered_example ex)"
proof -
  from floats_on_one_line_messages_of [OF assms]
  have "list_all floats_on_one_line (map role_content (filter recognised (messages_of ex)))"
    by (auto simp: list_all_iff floats_on_one_line_role_content)
  then show ?thesis by (simp add: filtered_example_def)
qed

lemma read_file_round_trip:
  assumes "list_all floats_on_one_line out" and "list_all is_dict out"
    and "list_all (round_trips loads) out"
  shows "read_file loads (join newline (map json_dumps out)) = map Parsed out"
proof -
  have nonempty: "json_dumps x \<noteq> []" if "is_dict x" for x
    using that by (cases x) simp_all
  from assms have
    "list_all (\<lambda>x. single_line (json_dumps x) \<and> json_dumps x \<noteq> [] \<and> round_trips loads x) out"
    by (induction out) (simp_all add: single_line_json_dumps nonempty)
  then show ?thesis unfolding read_file_def by (rule read_lines_records)
qed

text \<open>
  Claim C6. On a dataset in whose records every message is a \<^verbatim>\<open>{role, content}\<close> pair
  with a recognised role, the conversion succeeds; the records it writes hold the same
  messages in the same order as the input records, and the text it returns is these records
  serialised, one per line. Converting these records again returns them unchanged. And when
  the text is written to a file, is read back line by line, and the library's parser
  returns for each line the record that was serialised into it (its round trip, stated for
  the records written), the conversion of that file returns the same text: converting the
  output of a conversion equals converting once.
\<close>

theorem convert_idempotent_on_well_formed:
  assumes "list_all well_formed dataset"
  shows "\<exists>out. convert_examples dataset = Inr out
           \<and> map dialogue out = map dialogue dataset
           \<and> convert_file_format (map Parsed dataset) = Inr (join newline (map json_dumps out))
           \<and> convert_examples out = Inr out
           \<and> (list_all floats_on_one_line dataset \<and> list_all (round_trips loads) out \<longrightarrow>
                read_file loads (join newline (map json_dumps out)) = map Parsed out
                \<and> convert_file_format (read_file loads (join newline (map json_dumps out)))
                    = Inr (join newline (map json_dumps out)))"
proof -
  let ?out = "map filtered_example dataset"
  let ?text = "join newline (map json_dumps ?out)"
  from well_formed_list [OF assms]
  have conv: "list_all conversational dataset"
    and same: "map dialogue ?out = map dialogue dataset"
    by simp_all
  from filtered_examples_twice [OF conv]
  have conv': "list_all conversational ?out"
    and twice: "map filtered_example ?out = ?out"
    by simp_all
  have once: "convert_examples dataset = Inr ?out"
    by (rule convert_examples_conversational [OF conv])
  have again: "convert_examples ?out = Inr ?out"
    using convert_examples_conversational [OF conv'] twice by simp
  note as_text = convert_file_format_parsed [OF once]
  have dicts: "list_all is_dict ?out"
    by (induction dataset) (simp_all add: filtered_example_def)
  have reread: "read_file loads ?text = map Parsed ?out
      \<and> convert_file_format (read_file loads ?text) = Inr ?text"
    if floats: "list_all floats_on_one_line dataset" and trips: "list_all (round_trips loads) ?out"
  proof -
    from floats have "list_all floats_on_one_line ?out"
      by (induction dataset) (simp_all add: floats_on_one_line_filtered_example)
    from read_file_round_trip [OF this dicts trips]
    have lines_back: "read_file loads ?text = map Parsed ?out" .
    with convert_file_format_parsed [OF again] show ?thesis by simp
  qed
  from once same as_text again reread show ?thesis by blast
qed

text \<open>
  A well-formed dataset of two records; in the second the keys of the message come in the
  other order. The conversion writes two lines, and converting the file that holds them
  writes the same two lines.
\<close>

theorem convert_idempotent_on_well_formed_witness:
  \<open>list_all well_formed [scenario_second, reversed_keys]
   \<and> convert_examples [scenario_second, reversed_keys]
       = Inr [scenario_second, reversed_keys_converted]
   \<and> map dialogue [scenario_second, reversed_keys_converted]
       = map dialogue [scenario_second, reversed_keys]
   \<and> convert_file_format [Parsed scenario_second, Parsed reversed_keys]
       = Inr (''{"messages": [{"role": "user", "content": "Q"}, {"role": "assistant", "content": "A"}]}''
              @ [CHR 0x0A] @ ''{"messages": [{"role": "system", "content": 7}]}'')
   \<and> convert_file_format
         (read_file loads0
           (''{"messages": [{"role": "user", "content": "Q"}, {"role": "assistant", "content": "A"}]}''
            @ [CHR 0x0A] @ ''{"messages": [{"role": "system", "content": 7}]}''))
       = Inr (''{"messages": [{"role": "user", "content": "Q"}, {"role": "assistant", "content": "A"}]}''
              @ [CHR 0x0A] @ ''{"messages": [{"role": "system", "content": 7}]}'')\<close>
proof -
  let ?ds = "[scenario_second, reversed_keys]"
  let ?records = "[scenario_second, reversed_keys_converted]"
  have wf: "list_all well_formed ?ds"
    by (simp add: well_formed_def pair_message_def roles_def scenario_second_def
        reversed_keys_def)
  have floats: "list_all floats_on_one_line ?ds"
    by (simp add: scenario_second_def reversed_keys_def)
  have records: "convert_examples ?ds = Inr ?records"
    by (simp add: convert_example_def roles_def scenario_second_def reversed_keys_def
        reversed_keys_converted_def)
  have first_line: \<open>json_dumps scenario_second
      = ''{"messages": [{"role": "user", "content": "Q"}, {"role": "assistant", "content": "A"}]}''\<close>
    by (simp add: scenario_second_def encode_basestring_def escape_char_def)
  have second_line: \<open>json_dumps reversed_keys_converted
      = ''{"messages": [{"role": "system", "content": 7}]}''\<close>
    by (simp add: reversed_keys_converted_def encode_basestring_def escape_char_def
        int_repr_def digits.simps hex_digit_def)
  have trips: "list_all (round_trips loads0) ?records"
    by (simp add: round_trips_def first_line second_line newline_def loads0_def)
  from convert_idempotent_on_well_formed [OF wf, of loads0] obtain out
    where out: "convert_examples ?ds = Inr out"
      and same: "map dialogue out = map dialogue ?ds"
      and once: "convert_file_format (map Parsed ?ds) = Inr (join newline (map json_dumps out))"
      and reread: "list_all floats_on_one_line ?ds \<and> list_all (round_trips loads0) out \<longrightarrow>
          convert_file_format (read_file loads0 (join newline (map json_dumps out)))
            = Inr (join newline (map json_dumps out))"
    by blast
  from out records have "out = ?records" by simp
  with wf floats trips records same once reread show ?thesis
    by (simp add: first_line second_line newline_def)
qed

section \<open>The remote methods: which responses make them fail\<close>

text \<open>
  Subscripting and lower-casing raise built-in exceptions only; an instance of
  \<^verbatim>\<open>requests.RequestException\<close> on a 200 response can come from \<^verbatim>\<open>r.json()\<close> alone.
\<close>

lemma getitem_raises_builtin: "\<not> raises_RequestException (getitem b k)"
  by (cases b) (simp_all add: raises_RequestException_def split: option.splits)

lemma lower_raises_builtin: "getitem b k = Inr st \<Longrightarrow> lower st = Inl e \<Longrightarrow> \<not> is_RequestException e"
  by (cases st) auto

text \<open>
  The two paths of the uploader once the training data has been converted. On status 200
  the file object is closed before the body is read; on any other status the method raises
  with the file object as \<open>get_finetune_data\<close> left it.
\<close>

lemma upload_200:
  assumes "convert_file_format train_file = Inr converted" and "status_code r = 200"
  shows "upload_train_file self train_file r =
    (case response_json r of Inl e \<Rightarrow> Inl e | Inr body \<Rightarrow> getitem body ''id'',
     self\<lparr>dataHandler := Some \<lparr>written = converted, closed = True\<rparr>\<rparr>)"
  using assms
  by (simp add: upload_train_file_def get_finetune_data_def close_dataHandler_def
      split: sum.splits)

lemma upload_not_200:
  assumes "convert_file_format train_file = Inr converted" and "status_code r \<noteq> 200"
  shows "upload_train_file self train_file r =
    (Inl (raise_request_exception r),
     self\<lparr>dataHandler := Some \<lparr>written = converted, closed = False\<rparr>\<rparr>)"
  using assms
  by (simp add: upload_train_file_def get_finetune_data_def)

lemma upload_closes_dataHandler_on_200:
  assumes "convert_file_format train_file = Inr converted" and "status_code r = 200"
  shows "map_option closed (dataHandler (snd (upload_train_file self train_file r))) = Some True"
  by (simp add: upload_200 [OF assms])

lemma upload_leaves_dataHandler_open_otherwise:
  assumes "convert_file_format train_file = Inr converted" and "status_code r \<noteq> 200"
  shows "map_option closed (dataHandler (snd (upload_train_file self train_file r))) = Some False"
  by (simp add: upload_not_200 [OF assms])

text \<open>The three methods on a 200 response, by what \<^verbatim>\<open>r.json()\<close> does.\<close>

lemma upload_200_outcome:
  assumes "convert_file_format train_file = Inr converted" and "status_code r = 200"
  shows "body_json r = Inl m \<Longrightarrow>
           fst (upload_train_file self train_file r) = Inl (RequestsJSONDecodeError m)"
    and "body_json r = Inr body \<Longrightarrow>
           \<not> raises_RequestException (fst (upload_train_file self train_file r))"
  by (simp_all add: upload_200 [OF assms] response_json_def getitem_raises_builtin)

lemma create_200_outcome:
  assumes "status_code r = 200"
  shows "body_json r = Inl m \<Longrightarrow>
           fst (create_finetuning_job self r) = Inl (RequestsJSONDecodeError m)"
    and "body_json r = Inr body \<Longrightarrow>
           \<not> raises_RequestException (fst (create_finetuning_job self r))"
proof -
  show "body_json r = Inl m \<Longrightarrow>
      fst (create_finetuning_job self r) = Inl (RequestsJSONDecodeError m)"
    using assms by (simp add: create_finetuning_job_def response_json_def)
  show "\<not> raises_RequestException (fst (create_finetuning_job self r))"
    if json: "body_json r = Inr body"
  proof (cases "getitem body ''id''")
    case (Inl e)
    with getitem_raises_builtin [of body "''id''"] assms json show ?thesis
      by (simp add: create_finetuning_job_def response_json_def raises_RequestException_def)
  next
    case (Inr i)
    with getitem_raises_builtin [of body "''status''"] assms json show ?thesis
      by (simp add: create_finetuning_job_def response_json_def raises_RequestException_def
          split: sum.splits)
  qed
qed

lemma query_200_outcome:
  assumes "status_code r = 200"
  shows "body_json r = Inl m \<Longrightarrow>
           fst (query_finetuning_job self r) = Inl (RequestsJSONDecodeError m)"
    and "body_json r = Inr body \<Longrightarrow>
           \<not> raises_RequestException (fst (query_finetuning_job self r))"
proof -
  show "body_json r = Inl m \<Longrightarrow>
      fst (query_finetuning_job self r) = Inl (RequestsJSONDecodeError m)"
    using assms by (simp add: query_finetuning_job_def response_json_def)
  show "\<not> raises_RequestException (fst (query_finetuning_job self r))"
    if json: "body_json r = Inr body"
  proof (cases "getitem body ''status''")
    case (Inl e)
    with getitem_raises_builtin [of body "''status''"] assms json show ?thesis
      by (simp add: query_finetuning_job_def response_json_def raises_RequestException_def)
  next
    case (Inr st)
    show ?thesis
    proof (cases "lower st")
      case (Inl e)
      with lower_raises_builtin [OF Inr Inl] Inr assms json show ?thesis
        by (simp add: query_finetuning_job_def response_json_def raises_RequestException_def)
    next
      case low: (Inr low)
      with getitem_raises_builtin [of body "''fine_tuned_model''"] Inr assms json
      show ?thesis
        by (simp add: query_finetuning_job_def response_json_def raises_RequestException_def
            split: sum.splits)
    qed
  qed
qed

text \<open>
  Claim C1, evaluated where the code departs from it. The upload of the specification's
  scenario that is answered with status 400 and the body \<^verbatim>\<open>bad request\<close> raises the
  \<^verbatim>\<open>RequestException\<close> on line 108, and the file object holding the converted dataset is
  still open when the method is left: \<^verbatim>\<open>self._dataHandler.close()\<close> on line 111 comes
  after the \<^verbatim>\<open>raise\<close> and runs on the status-200 path only.
\<close>

theorem upload_failure_leaves_dataHandler_open:
  "fst (upload_train_file module0 [Parsed scenario_second] bad_request)
     = Inl (RequestException ''bad request'')
   \<and> map_option closed
       (dataHandler (snd (upload_train_file module0 [Parsed scenario_second] bad_request)))
     = Some False"
  by (simp add: upload_train_file_def get_finetune_data_def convert_file_format_def
      convert_example_def roles_def raise_request_exception_def decode_def
      module0_def scenario_second_def bad_request_def)

text \<open>
  Claim C2, as amended. Take a response whose chunks are valid UTF-8 (and, for the upload, a
  training file that converts). When its status code is not 200, each of the three remote
  methods raises the \<^verbatim>\<open>RequestException\<close> whose message is the decoded chunks of the body
  joined by newlines, which is the body itself when it comes as one chunk: so every status
  of 300 and above fails with that error, and so does every 2xx status other than 200. When
  its status code is 200, the methods do not reach that \<^verbatim>\<open>raise\<close>: with a JSON body they
  raise no instance of \<^verbatim>\<open>RequestException\<close> at all, and with a body that is not JSON they
  raise the \<^verbatim>\<open>requests.exceptions.JSONDecodeError\<close> of \<^verbatim>\<open>r.json()\<close>, an instance of
  \<^verbatim>\<open>RequestException\<close> that carries the parser's message.
\<close>

theorem request_exception_iff_status_not_200:
  assumes "convert_file_format train_file = Inr converted"
    and "decode_chunks (iter_content r) = Inr cs"
  shows "(status_code r \<noteq> 200 \<longrightarrow>
            fst (upload_train_file self train_file r) = Inl (RequestException (join newline cs))
          \<and> fst (create_finetuning_job self r) = Inl (RequestException (join newline cs))
          \<and> fst (query_finetuning_job self r) = Inl (RequestException (join newline cs)))
       \<and> (status_code r = 200 \<longrightarrow>
            (case body_json r of
               Inl m \<Rightarrow>
                 fst (upload_train_file self train_file r) = Inl (RequestsJSONDecodeError m)
               \<and> fst (create_finetuning_job self r) = Inl (RequestsJSONDecodeError m)
               \<and> fst (query_finetuning_job self r) = Inl (RequestsJSONDecodeError m)
             | Inr body \<Rightarrow>
                 \<not> raises_RequestException (fst (upload_train_file self train_file r))
               \<and> \<not> raises_RequestException (fst (create_finetuning_job self r))
               \<and> \<not> raises_RequestException (fst (query_finetuning_job self r))))"
proof (cases "status_code r = 200")
  case True
  show ?thesis
  proof (cases "body_json r")
    case (Inl m)
    with True upload_200_outcome(1) [OF assms(1) True Inl]
      create_200_outcome(1) [OF True Inl] query_200_outcome(1) [OF True Inl]
    show ?thesis by simp
  next
    case (Inr body)
    with True upload_200_outcome(2) [OF assms(1) True Inr]
      create_200_outcome(2) [OF True Inr] query_200_outcome(2) [OF True Inr]
    show ?thesis by simp
  qed
next
  case False
  have "raise_request_exception r = RequestException (join newline cs)"
    by (simp add: raise_request_exception_def assms(2))
  with False show ?thesis
    by (simp add: upload_not_200 [OF assms(1) False] create_finetuning_job_def
        query_finetuning_job_def)
qed

text \<open>
  The specification's 400 response on the three methods; its 200 response with a file
  identifier, on which the upload raises nothing; and a 200 response that is not JSON.
\<close>

theorem request_exception_iff_status_not_200_witness:
  "fst (upload_train_file module0 [Parsed scenario_second] bad_request)
     = Inl (RequestException ''bad request'')
   \<and> fst (create_finetuning_job module0 bad_request) = Inl (RequestException ''bad request'')
   \<and> fst (query_finetuning_job module0 bad_request) = Inl (RequestException ''bad request'')
   \<and> \<not> raises_RequestException
         (fst (upload_train_file module0 [Parsed scenario_second]
                (ok_with (JObj [(''id'', JStr ''file-123'')]))))
   \<and> fst (upload_train_file module0 [Parsed scenario_second]
            (ok_with (JObj [(''id'', JStr ''file-123'')])))
       = Inr (JStr ''file-123'')
   \<and> fst (create_finetuning_job module0 ok_not_json) = Inl (RequestsJSONDecodeError complaint)"
proof -
  have converts:
    "convert_file_format [Parsed scenario_second]
       = Inr (json_dumps (filtered_example scenario_second))"
    by (simp add: convert_file_format_def convert_example_conversational conversational_def
        scenario_second_def)
  have decodes: "decode_chunks (iter_content bad_request) = Inr [''bad request'']"
    by (simp add: bad_request_def decode_def)
  have no_chunks:
    "decode_chunks (iter_content (ok_with (JObj [(''id'', JStr ''file-123'')]))) = Inr []"
    by (simp add: ok_with_def)
  have decodes': "decode_chunks (iter_content ok_not_json) = Inr [complaint]"
    by (simp add: ok_not_json_def complaint_def decode_def)
  have returned:
    "fst (upload_train_file module0 [Parsed scenario_second]
           (ok_with (JObj [(''id'', JStr ''file-123'')])))
       = Inr (JStr ''file-123'')"
    by (simp add: upload_200 [OF converts] ok_with_def response_json_def)
  from request_exception_iff_status_not_200 [OF converts decodes, where self = module0]
    request_exception_iff_status_not_200 [OF converts no_chunks, where self = module0]
    request_exception_iff_status_not_200 [OF converts decodes', where self = module0]
    returned
  show ?thesis
    by (simp add: bad_request_def ok_with_def ok_not_json_def raises_RequestException_def)
qed

text \<open>
  Three responses on which the claim as stated fails. Status 201 is a 2xx status, and the
  upload raises the \<^verbatim>\<open>RequestException\<close> all the same, although the body holds a file
  identifier. Status 500 with a body that is not UTF-8 makes the method fail while it
  builds the message, with \<^verbatim>\<open>UnicodeDecodeError\<close> and not with the error that carries the
  body. And on status 200 with a body that is not JSON the method raises an instance of
  \<^verbatim>\<open>RequestException\<close> after all, the one of \<^verbatim>\<open>r.json()\<close>; for this body its message is
  even the body.
\<close>

theorem request_exception_on_201_counterexample:
  "fst (upload_train_file module0 [Parsed scenario_second]
         \<lparr>status_code = 201, iter_content = [''created''],
          body_json = Inr (JObj [(''id'', JStr ''file-123'')])\<rparr>)
     = Inl (RequestException ''created'')
   \<and> fst (query_finetuning_job module0
         \<lparr>status_code = 500, iter_content = [[CHR 0xFF]],
          body_json = Inl ''Expecting value: line 1 column 1 (char 0)''\<rparr>)
     = Inl UnicodeDecodeError
   \<and> fst (query_finetuning_job module0 ok_not_json) = Inl (RequestsJSONDecodeError complaint)
   \<and> is_RequestException (RequestsJSONDecodeError complaint)
   \<and> status_code ok_not_json = 200
   \<and> decode_chunks (iter_content ok_not_json) = Inr [complaint]"
  by (simp add: upload_train_file_def get_finetune_data_def convert_file_format_def
      convert_example_def roles_def raise_request_exception_def decode_def
      query_finetuning_job_def module0_def scenario_second_def response_json_def
      ok_not_json_def complaint_def)

section \<open>The job submitter and the job poller on a 200 response\<close>

text \<open>
  Claim C7, as amended. When \<^verbatim>\<open>_create_finetuning_job\<close> receives a response with status
  200: for a body that is a JSON object holding both keys it returns the pair of the values
  under \<^verbatim>\<open>id\<close> and \<^verbatim>\<open>status\<close>, as the body holds them (a \<^verbatim>\<open>null\<close> comes back as
  \<^verbatim>\<open>None\<close>); when the key \<^verbatim>\<open>id\<close> is absent from the object it fails with
  \<^verbatim>\<open>KeyError('id')\<close>, and when only \<^verbatim>\<open>status\<close> is absent with \<^verbatim>\<open>KeyError('status')\<close> (the
  form the specification's \<^verbatim>\<open>ProtocolError\<close> takes in the code); a JSON body that is not an
  object fails with \<^verbatim>\<open>TypeError\<close>, and a body that is not JSON with the error of
  \<^verbatim>\<open>r.json()\<close>. So a pair is returned only for an object that holds both keys, and it is the
  pair of their values. The call leaves \<open>self\<close> as it was.
\<close>

theorem create_job_returns_id_and_status:
  assumes "status_code r = 200"
  shows "create_finetuning_job self r =
          (case body_json r of
             Inl m \<Rightarrow> Inl (RequestsJSONDecodeError m)
           | Inr body \<Rightarrow>
               (case body of
                  JObj d \<Rightarrow>
                    (case map_of d ''id'' of
                       None \<Rightarrow> Inl (KeyError ''id'')
                     | Some fine_tuning_job_id \<Rightarrow>
                         (case map_of d ''status'' of
                            None \<Rightarrow> Inl (KeyError ''status'')
                          | Some status \<Rightarrow> Inr (fine_tuning_job_id, status)))
                | _ \<Rightarrow> Inl TypeError),
           self)
       \<and> (fst (create_finetuning_job self r) = Inr (i, st) \<longrightarrow>
            (\<exists>d. body_json r = Inr (JObj d)
               \<and> map_of d ''id'' = Some i \<and> map_of d ''status'' = Some st))"
proof -
  have outcome: "create_finetuning_job self r =
          (case body_json r of
             Inl m \<Rightarrow> Inl (RequestsJSONDecodeError m)
           | Inr body \<Rightarrow>
               (case body of
                  JObj d \<Rightarrow>
                    (case map_of d ''id'' of
                       None \<Rightarrow> Inl (KeyError ''id'')
                     | Some fine_tuning_job_id \<Rightarrow>
                         (case map_of d ''status'' of
                            None \<Rightarrow> Inl (KeyError ''status'')
                          | Some status \<Rightarrow> Inr (fine_tuning_job_id, status)))
                | _ \<Rightarrow> Inl TypeError),
           self)"
    using assms
    by (simp add: create_finetuning_job_def response_json_def
        split: sum.splits json.splits option.splits)
  have "\<exists>d. body_json r = Inr (JObj d) \<and> map_of d ''id'' = Some i \<and> map_of d ''status'' = Some st"
    if "fst (create_finetuning_job self r) = Inr (i, st)"
    using that unfolding outcome
    by (auto split: sum.splits json.splits option.splits)
  with outcome show ?thesis by blast
qed

text \<open>
  On 200 responses: both fields, a missing \<^verbatim>\<open>status\<close>, a missing \<^verbatim>\<open>id\<close>, a body that is
  a JSON array, and a body that is not JSON.
\<close>

theorem create_job_returns_id_and_status_witness:
  "create_finetuning_job module0
     (ok_with (JObj [(''id'', JStr ''ftjob-1''), (''status'', JStr ''queued'')]))
     = (Inr (JStr ''ftjob-1'', JStr ''queued''), module0)
   \<and> create_finetuning_job module0 (ok_with (JObj [(''id'', JStr ''ftjob-1'')]))
     = (Inl (KeyError ''status''), module0)
   \<and> create_finetuning_job module0 (ok_with (JObj [(''status'', JStr ''queued'')]))
     = (Inl (KeyError ''id''), module0)
   \<and> create_finetuning_job module0 (ok_with (JArr [])) = (Inl TypeError, module0)
   \<and> create_finetuning_job module0 ok_not_json = (Inl (RequestsJSONDecodeError complaint), module0)"
proof -
  have ok: "status_code (ok_with body) = 200" for body
    by (simp add: ok_with_def)
  have ok': "status_code ok_not_json = 200"
    by (simp add: ok_not_json_def)
  note at = create_job_returns_id_and_status
  from at [where self = module0
        and r = "ok_with (JObj [(''id'', JStr ''ftjob-1''), (''status'', JStr ''queued'')])",
        OF ok, THEN conjunct1]
    at [where self = module0 and r = "ok_with (JObj [(''id'', JStr ''ftjob-1'')])",
        OF ok, THEN conjunct1]
    at [where self = module0 and r = "ok_with (JObj [(''status'', JStr ''queued'')])",
        OF ok, THEN conjunct1]
    at [where self = module0 and r = "ok_with (JArr [])", OF ok, THEN conjunct1]
    at [where self = module0, OF ok', THEN conjunct1]
  show ?thesis by (simp add: ok_with_def ok_not_json_def)
qed

text \<open>
  Two responses on which the claim as stated fails. Status 202 is a success status, and
  the body holds both fields; the method raises the \<^verbatim>\<open>RequestException\<close> and returns no
  pair. And on status 200 with the body \<^verbatim>\<open>{"id": null, "status": "queued"}\<close> the method
  returns a pair whose first component is \<^verbatim>\<open>None\<close>.
\<close>

theorem create_job_on_202_counterexample:
  "fst (create_finetuning_job module0
         \<lparr>status_code = 202, iter_content = [''accepted''],
          body_json = Inr (JObj [(''id'', JStr ''ftjob-1''), (''status'', JStr ''queued'')])\<rparr>)
     = Inl (RequestException ''accepted'')
   \<and> fst (create_finetuning_job module0
         (ok_with (JObj [(''id'', JNull), (''status'', JStr ''queued'')])))
     = Inr (JNull, JStr ''queued'')"
  by (simp add: create_finetuning_job_def raise_request_exception_def decode_def
      response_json_def ok_with_def)

text \<open>
  Claim C3, as amended. When \<^verbatim>\<open>_query_finetuning_job\<close> receives a response with status 200
  and returns a pair (model, status): if the status, lower-cased, is \<^verbatim>\<open>succeeded\<close>, the
  model is the value of the body's \<^verbatim>\<open>fine_tuned_model\<close> field, whatever that value is;
  otherwise the model is \<^verbatim>\<open>None\<close>, whether or not the body has the field. Hence a model
  other than \<^verbatim>\<open>None\<close> is returned only with a status that equals \<^verbatim>\<open>succeeded\<close> up to
  case, and with the status \<^verbatim>\<open>failed\<close>, \<^verbatim>\<open>cancelled\<close>, \<^verbatim>\<open>running\<close> or \<^verbatim>\<open>queued\<close> the model
  is \<^verbatim>\<open>None\<close>.
\<close>

theorem query_model_only_when_succeeded:
  assumes "status_code r = 200"
    and "fst (query_finetuning_job self r) = Inr (fine_tuned_model, status)"
  shows "(lower status = Inr ''succeeded'' \<longrightarrow>
            (\<exists>body. response_json r = Inr body
               \<and> getitem body ''fine_tuned_model'' = Inr fine_tuned_model))
       \<and> (lower status \<noteq> Inr ''succeeded'' \<longrightarrow> fine_tuned_model = JNull)
       \<and> (fine_tuned_model \<noteq> JNull \<longrightarrow> lower status = Inr ''succeeded'')
       \<and> (status \<in> {JStr ''failed'', JStr ''cancelled'', JStr ''running'', JStr ''queued''} \<longrightarrow>
            fine_tuned_model = JNull)"
proof -
  from assms obtain body low where body: "response_json r = Inr body"
    and st: "getitem body ''status'' = Inr status" and low: "lower status = Inr low"
    by (auto simp: query_finetuning_job_def split: sum.splits if_splits)
  show ?thesis
  proof (cases "low = ''succeeded''")
    case True
    with assms body st low have "getitem body ''fine_tuned_model'' = Inr fine_tuned_model"
      by (auto simp: query_finetuning_job_def split: sum.splits)
    with True body low show ?thesis by (auto simp: lower_char_def)
  next
    case False
    with assms body st low have "fine_tuned_model = JNull"
      by (auto simp: query_finetuning_job_def split: sum.splits)
    with False low show ?thesis by simp
  qed
qed

text \<open>
  The two job-query scenarios of the specification: a succeeded job with its model, and a
  running job, for which the model is absent although the body names one.
\<close>

theorem query_model_only_when_succeeded_witness:
  "fst (query_finetuning_job module0
         (ok_with (JObj [(''status'', JStr ''succeeded''),
                         (''fine_tuned_model'', JStr ''ft:model-1'')])))
     = Inr (JStr ''ft:model-1'', JStr ''succeeded'')
   \<and> getitem (JObj [(''status'', JStr ''succeeded''),
                     (''fine_tuned_model'', JStr ''ft:model-1'')]) ''fine_tuned_model''
     = Inr (JStr ''ft:model-1'')
   \<and> fst (query_finetuning_job module0
         (ok_with (JObj [(''status'', JStr ''running''),
                         (''fine_tuned_model'', JStr ''ft:model-1'')])))
     = Inr (JNull, JStr ''running'')"
proof -
  let ?done = "ok_with (JObj [(''status'', JStr ''succeeded''),
                              (''fine_tuned_model'', JStr ''ft:model-1'')])"
  let ?busy = "ok_with (JObj [(''status'', JStr ''running''),
                              (''fine_tuned_model'', JStr ''ft:model-1'')])"
  have ok: "status_code ?done = 200" "status_code ?busy = 200"
    by (simp_all add: ok_with_def)
  have returned:
    "fst (query_finetuning_job module0 ?done) = Inr (JStr ''ft:model-1'', JStr ''succeeded'')"
    "fst (query_finetuning_job module0 ?busy) = Inr (JNull, JStr ''running'')"
    by (simp_all add: query_finetuning_job_def response_json_def lower_char_def ok_with_def)
  from query_model_only_when_succeeded [OF ok(1) returned(1)]
    query_model_only_when_succeeded [OF ok(2) returned(2)] returned
  show ?thesis by (simp add: lower_char_def response_json_def ok_with_def)
qed

text \<open>
  A 200 response for a succeeded job whose \<^verbatim>\<open>fine_tuned_model\<close> is \<^verbatim>\<open>null\<close>, a value the
  specification allows for the field: the status equals \<^verbatim>\<open>succeeded\<close> and the returned
  model is \<^verbatim>\<open>None\<close>, so the model is not present whenever the status is \<^verbatim>\<open>succeeded\<close>.
\<close>

theorem query_succeeded_null_model_counterexample:
  "query_finetuning_job module0
     (ok_with (JObj [(''status'', JStr ''succeeded''), (''fine_tuned_model'', JNull)]))
     = (Inr (JNull, JStr ''succeeded''), module0)"
  by (simp add: query_finetuning_job_def response_json_def lower_char_def ok_with_def)

text \<open>
  Claim C9. When \<^verbatim>\<open>_query_finetuning_job\<close> receives a response with status 200 whose body
  is a JSON object with a string under \<^verbatim>\<open>status\<close> that equals \<^verbatim>\<open>succeeded\<close> up to case, and
  without the key \<^verbatim>\<open>fine_tuned_model\<close>, the call raises \<^verbatim>\<open>KeyError('fine_tuned_model')\<close>;
  it does not return the pair of an absent model and the status.
\<close>

theorem query_succeeded_without_model_fails:
  assumes "status_code r = 200" and "body_json r = Inr (JObj d)"
    and "map_of d ''status'' = Some (JStr s)" and "map lower_char s = ''succeeded''"
    and "map_of d ''fine_tuned_model'' = None"
  shows "query_finetuning_job self r = (Inl (KeyError ''fine_tuned_model''), self)"
  using assms
  by (simp add: query_finetuning_job_def response_json_def)

theorem query_succeeded_without_model_fails_witness:
  "query_finetuning_job module0 (ok_with (JObj [(''status'', JStr ''Succeeded'')]))
     = (Inl (KeyError ''fine_tuned_model''), module0)"
proof -
  let ?d = "[(''status'', JStr ''Succeeded'')]"
  have h1: "status_code (ok_with (JObj ?d)) = 200" by (simp add: ok_with_def)
  have h2: "body_json (ok_with (JObj ?d)) = Inr (JObj ?d)" by (simp add: ok_with_def)
  have h3: "map_of ?d ''status'' = Some (JStr ''Succeeded'')" by simp
  have h4: "map lower_char ''Succeeded'' = ''succeeded''" by code_simp
  have h5: "map_of ?d ''fine_tuned_model'' = None" by simp
  from query_succeeded_without_model_fails [OF h1 h2 h3 h4 h5] show ?thesis .
qed

section \<open>The deployment stub\<close>

text \<open>
  Claim C8. For a module object with any model name \<open>m\<close>, \<^verbatim>\<open>_create_deployment\<close> returns the
  pair of \<open>m\<close> and \<^verbatim>\<open>RUNNING\<close>; for any deployment identifier, of any type,
  \<^verbatim>\<open>_query_deployment\<close> returns \<^verbatim>\<open>RUNNING\<close>. Neither has a failing outcome, and both leave the
  module object as it was.
\<close>

theorem deployment_stub_running:
  "create_deployment (self\<lparr>model_name := m\<rparr>) = ((m, ''RUNNING''), self\<lparr>model_name := m\<rparr>)
   \<and> query_deployment self deployment_id = (''RUNNING'', self)"
  by (simp add: create_deployment_def query_deployment_def)

end
